theory Spec2Isabelle
  imports Complex_Main "HOL-Library.Product_Lexorder" "HOL-Library.Sublist"
begin

section \<open>Values\<close>

text \<open>
  The development embeds the dense (\<^verbatim>\<open>use_sparse = False\<close>) paths of
  \<^verbatim>\<open>partition_baseline_support.py\<close> and the helpers of \<^verbatim>\<open>block_merge.py\<close>.
  Integer arrays are lists of integers, block ids are natural numbers, and a matrix is the
  list of its rows. The edge-count kernels are embedded over unbounded integers (edge
  counts stay far below the 64-bit range); the candidate degrees, which are claimed for
  every degree, are embedded with the wrap-around of numpy's \<^verbatim>\<open>int64\<close>.
  Every shape or index failure of numpy is a value of type \<open>error\<close>.
\<close>

datatype error = IndexError | ValueError | ZeroDivisionError | AttributeError

text \<open>
  A double is a real number or one of the three special values. Rounding, overflow and
  underflow of finite values are not modelled; what is modelled is where a division, a
  logarithm, a product or a sum leaves the finite values, as IEEE 754 prescribes it.
  Every zero divisor in the code is an integer degree converted to a double, hence \<open>+0.0\<close>.
\<close>

datatype npfloat = Fin real | PInf | NInf | NaN

fun is_finite :: "npfloat \<Rightarrow> bool" where
  "is_finite (Fin x) = True"
| "is_finite PInf = False"
| "is_finite NInf = False"
| "is_finite NaN = False"

fun np_neg :: "npfloat \<Rightarrow> npfloat" where
  "np_neg (Fin x) = Fin (- x)"
| "np_neg PInf = NInf"
| "np_neg NInf = PInf"
| "np_neg NaN = NaN"

fun np_add :: "npfloat \<Rightarrow> npfloat \<Rightarrow> npfloat" where
  "np_add (Fin x) (Fin y) = Fin (x + y)"
| "np_add NaN y = NaN"
| "np_add x NaN = NaN"
| "np_add PInf NInf = NaN"
| "np_add NInf PInf = NaN"
| "np_add PInf y = PInf"
| "np_add NInf y = NInf"
| "np_add x PInf = PInf"
| "np_add x NInf = NInf"

definition np_sub :: "npfloat \<Rightarrow> npfloat \<Rightarrow> npfloat" where
  "np_sub x y = np_add x (np_neg y)"

fun np_sign :: "real \<Rightarrow> npfloat \<Rightarrow> npfloat" where
  "np_sign x PInf = (if 0 < x then PInf else if x < 0 then NInf else NaN)"
| "np_sign x NInf = (if 0 < x then NInf else if x < 0 then PInf else NaN)"
| "np_sign x y = NaN"

fun np_mul :: "npfloat \<Rightarrow> npfloat \<Rightarrow> npfloat" where
  "np_mul (Fin x) (Fin y) = Fin (x * y)"
| "np_mul NaN y = NaN"
| "np_mul x NaN = NaN"
| "np_mul (Fin x) y = np_sign x y"
| "np_mul x (Fin y) = np_sign y x"
| "np_mul PInf y = y"
| "np_mul NInf y = np_neg y"

fun np_div :: "npfloat \<Rightarrow> npfloat \<Rightarrow> npfloat" where
  "np_div (Fin x) (Fin y) =
     (if y \<noteq> 0 then Fin (x / y) else if 0 < x then PInf else if x < 0 then NInf else NaN)"
| "np_div NaN y = NaN"
| "np_div x NaN = NaN"
| "np_div (Fin x) y = Fin 0"
| "np_div PInf (Fin y) = (if 0 \<le> y then PInf else NInf)"
| "np_div NInf (Fin y) = (if 0 \<le> y then NInf else PInf)"
| "np_div x y = NaN"

fun np_log :: "npfloat \<Rightarrow> npfloat" where
  "np_log (Fin x) = (if 0 < x then Fin (ln x) else if x = 0 then NInf else NaN)"
| "np_log PInf = PInf"
| "np_log NInf = NaN"
| "np_log NaN = NaN"

definition np_sum :: "npfloat list \<Rightarrow> npfloat" where
  "np_sum xs = foldl np_add (Fin 0) xs"

section \<open>Array operations\<close>

text \<open>\<^verbatim>\<open>a[idx] += vals\<close> and \<^verbatim>\<open>a[idx] -= vals\<close> with an index array: numpy gathers
  \<^verbatim>\<open>a[idx]\<close> from the array as it was, adds, and stores the results in order, so a
  repeated index keeps the last store.\<close>

definition np_iadd_at :: "int list \<Rightarrow> nat list \<Rightarrow> int list \<Rightarrow> int list" where
  "np_iadd_at xs idx vals = fold (\<lambda>(i, v) acc. acc[i := xs ! i + v]) (zip idx vals) xs"

definition np_isub_at :: "int list \<Rightarrow> nat list \<Rightarrow> int list \<Rightarrow> int list" where
  "np_isub_at xs idx vals = fold (\<lambda>(i, v) acc. acc[i := xs ! i - v]) (zip idx vals) xs"

text \<open>\<^verbatim>\<open>a[i] += v\<close> and \<^verbatim>\<open>a[i] -= v\<close> at one position.\<close>

definition iadd :: "int list \<Rightarrow> nat \<Rightarrow> int \<Rightarrow> int list" where
  "iadd xs i v = xs[i := xs ! i + v]"

definition isub :: "int list \<Rightarrow> nat \<Rightarrow> int \<Rightarrow> int list" where
  "isub xs i v = xs[i := xs ! i - v]"

text \<open>\<^verbatim>\<open>np.sum(count[np.where(b == t)])\<close>.\<close>

definition sum_where :: "nat list \<Rightarrow> int list \<Rightarrow> nat \<Rightarrow> int" where
  "sum_where b count t = sum_list (map snd (filter (\<lambda>(x, c). x = t) (zip b count)))"

text \<open>Column \<open>j\<close> of a matrix, \<^verbatim>\<open>M[:, j]\<close>.\<close>

definition col :: "int list list \<Rightarrow> nat \<Rightarrow> int list" where
  "col M j = map (\<lambda>row. row ! j) M"

definition is_square :: "int list list \<Rightarrow> bool" where
  "is_square M = list_all (\<lambda>row. length row = length M) M"

section \<open>The partition state\<close>

text \<open>
  Modelled from the spec: the classes \<^verbatim>\<open>Partition\<close> (module \<^verbatim>\<open>partition\<close>) and
  \<^verbatim>\<open>EdgeCountUpdates\<close> (module \<^verbatim>\<open>utils.edge_count_updates\<close>), which are not among the
  sources. The fields are the attributes that the functions embedded here read and write:
  the number of blocks \<open>B\<close>, the block of each vertex, the \<open>B \<times> B\<close> edge-count matrix, its
  row sums, column sums and their sum per block, and the number of blocks to merge; and the
  four vectors of an update, the new rows and columns of the current block \<open>r\<close> and of the
  proposed block \<open>s\<close>.
\<close>

record Partition =
  num_blocks :: int
  block_assignment :: "int list"
  interblock_edge_count :: "int list list"
  block_degrees_out :: "int list"
  block_degrees_in :: "int list"
  block_degrees :: "int list"
  num_blocks_to_merge :: int

record EdgeCountUpdates =
  block_row :: "int list"
  proposal_row :: "int list"
  block_col :: "int list"
  proposal_col :: "int list"

section \<open>Candidate block degrees\<close>

text \<open>
  The degree vectors are \<^verbatim>\<open>int64\<close> arrays: an entry is an integer of
  \<open>[-2\<^sup>6\<^sup>3, 2\<^sup>6\<^sup>3)\<close>, and the result of an addition or subtraction stored into the array
  is reduced to this range by two's complement wrap-around.
\<close>

definition in_int64 :: "int \<Rightarrow> bool" where
  "in_int64 x \<longleftrightarrow> - (2 ^ 63) \<le> x \<and> x < 2 ^ 63"

definition wrap64 :: "int \<Rightarrow> int" where
  "wrap64 x = (x + 2 ^ 63) mod 2 ^ 64 - 2 ^ 63"

text \<open>\<^verbatim>\<open>a[i] += v\<close> and \<^verbatim>\<open>a[i] -= v\<close> at one position of an \<^verbatim>\<open>int64\<close> array.\<close>

definition iadd64 :: "int list \<Rightarrow> nat \<Rightarrow> int \<Rightarrow> int list" where
  "iadd64 xs i v = xs[i := wrap64 (xs ! i + v)]"

definition isub64 :: "int list \<Rightarrow> nat \<Rightarrow> int \<Rightarrow> int list" where
  "isub64 xs i v = xs[i := wrap64 (xs ! i - v)]"

text \<open>
  \<^verbatim>\<open>compute_new_block_degrees\<close>: for each of the three degree vectors,
  \<^verbatim>\<open>new_d = old.copy(); new_d[r] -= degree; new_d[s] += degree\<close>.
\<close>

definition new_degree :: "nat \<Rightarrow> nat \<Rightarrow> int list \<Rightarrow> int \<Rightarrow> error + int list" where
  "new_degree r s old degree =
     (if r < length old \<and> s < length old
      then Inr (iadd64 (isub64 old r degree) s degree)
      else Inl IndexError)"

definition compute_new_block_degrees ::
  "nat \<Rightarrow> nat \<Rightarrow> Partition \<Rightarrow> int \<Rightarrow> int \<Rightarrow> int \<Rightarrow> error + (int list \<times> int list \<times> int list)" where
  "compute_new_block_degrees r s part k_out k_in k =
     (case new_degree r s (block_degrees_out part) k_out of
        Inl e \<Rightarrow> Inl e
      | Inr d_out_new \<Rightarrow>
     (case new_degree r s (block_degrees_in part) k_in of
        Inl e \<Rightarrow> Inl e
      | Inr d_in_new \<Rightarrow>
     (case new_degree r s (block_degrees part) k of
        Inl e \<Rightarrow> Inl e
      | Inr d_new \<Rightarrow> Inr (d_out_new, d_in_new, d_new))))"

text \<open>
  The same function over a store of arrays, to see which arrays it writes. An address is
  a position in the store; \<^verbatim>\<open>old.copy()\<close> appends a new array, and the two in-place
  updates write through the address of the copy. The partition holds the addresses of
  its three degree vectors.
\<close>

type_synonym store = "int list list"

record Partition_refs =
  block_degrees_out_ref :: nat
  block_degrees_in_ref :: nat
  block_degrees_ref :: nat

definition np_copy :: "store \<Rightarrow> nat \<Rightarrow> error + (nat \<times> store)" where
  "np_copy h a = (if a < length h then Inr (length h, h @ [h ! a]) else Inl IndexError)"

definition store_iadd64 :: "store \<Rightarrow> nat \<Rightarrow> nat \<Rightarrow> int \<Rightarrow> error + store" where
  "store_iadd64 h a i v =
     (if a < length h \<and> i < length (h ! a) then Inr (h[a := iadd64 (h ! a) i v])
      else Inl IndexError)"

definition store_isub64 :: "store \<Rightarrow> nat \<Rightarrow> nat \<Rightarrow> int \<Rightarrow> error + store" where
  "store_isub64 h a i v =
     (if a < length h \<and> i < length (h ! a) then Inr (h[a := isub64 (h ! a) i v])
      else Inl IndexError)"

fun new_degrees_loop ::
  "nat \<Rightarrow> nat \<Rightarrow> (nat \<times> int) list \<Rightarrow> nat list \<Rightarrow> store \<Rightarrow> error + (nat list \<times> store)" where
  "new_degrees_loop r s [] new h = Inr (new, h)"
| "new_degrees_loop r s ((old, degree) # rest) new h =
     (case np_copy h old of
        Inl e \<Rightarrow> Inl e
      | Inr (new_d, h1) \<Rightarrow>
     (case store_isub64 h1 new_d r degree of
        Inl e \<Rightarrow> Inl e
      | Inr h2 \<Rightarrow>
     (case store_iadd64 h2 new_d s degree of
        Inl e \<Rightarrow> Inl e
      | Inr h3 \<Rightarrow> new_degrees_loop r s rest (new @ [new_d]) h3)))"

definition compute_new_block_degrees_store ::
  "nat \<Rightarrow> nat \<Rightarrow> Partition_refs \<Rightarrow> int \<Rightarrow> int \<Rightarrow> int \<Rightarrow> store \<Rightarrow> error + (nat list \<times> store)" where
  "compute_new_block_degrees_store r s part k_out k_in k h =
     new_degrees_loop r s
       (zip [block_degrees_out_ref part, block_degrees_in_ref part,
             block_degrees_ref part] [k_out, k_in, k]) [] h"

section \<open>Edge-count update kernels\<close>

text \<open>
  The kernels index rows of length \<open>B\<close> by \<open>r\<close>, \<open>s\<close> and the neighbour blocks. An index
  outside \<open>[0, B)\<close> is an \<^verbatim>\<open>IndexError\<close>. The model covers square matrices and count
  arrays as long as their block arrays, which is what \<^verbatim>\<open>np.unique\<close> with
  \<^verbatim>\<open>np.bincount\<close> and \<^verbatim>\<open>nonzero\<close> produce; every other shape is reported as
  \<^verbatim>\<open>ValueError\<close>.
\<close>

definition kernel_check ::
  "int list list \<Rightarrow> nat \<Rightarrow> nat \<Rightarrow> nat list \<Rightarrow> int list \<Rightarrow> nat list \<Rightarrow> int list \<Rightarrow> error option" where
  "kernel_check M r s b_out count_out b_in count_in =
     (let B = length M in
      if \<not> is_square M \<or> length count_out \<noteq> length b_out \<or> length count_in \<noteq> length b_in
      then Some ValueError
      else if \<not> (r < B \<and> s < B \<and> list_all (\<lambda>t. t < B) b_out \<and> list_all (\<lambda>t. t < B) b_in)
      then Some IndexError
      else None)"

definition compute_new_rows_cols_interblock_edge_count_matrix ::
  "int list list \<Rightarrow> nat \<Rightarrow> nat \<Rightarrow> nat list \<Rightarrow> int list \<Rightarrow> nat list \<Rightarrow> int list \<Rightarrow> int \<Rightarrow> bool
     \<Rightarrow> error + EdgeCountUpdates" where
  "compute_new_rows_cols_interblock_edge_count_matrix M r s b_out count_out b_in count_in
       count_self agg_move =
     (case kernel_check M r s b_out count_out b_in count_in of
        Some e \<Rightarrow> Inl e
      | None \<Rightarrow>
          let B = length M;
              M_r_row =
                (if agg_move then replicate B 0
                 else
                   let M_r_row = M ! r;
                       M_r_row = np_isub_at M_r_row b_out count_out;
                       M_r_row = isub M_r_row r (sum_where b_in count_in r);
                       M_r_row = iadd M_r_row s (sum_where b_in count_in r)
                   in M_r_row);
              M_r_col =
                (if agg_move then replicate B 0
                 else
                   let M_r_col = col M r;
                       M_r_col = np_isub_at M_r_col b_in count_in;
                       M_r_col = isub M_r_col r (sum_where b_out count_out r);
                       M_r_col = iadd M_r_col s (sum_where b_out count_out r)
                   in M_r_col);
              M_s_row = M ! s;
              M_s_col = col M s;
              M_s_row = np_iadd_at M_s_row b_out count_out;
              M_s_row = isub M_s_row r (sum_where b_in count_in s);
              M_s_row = iadd M_s_row s (sum_where b_in count_in s);
              M_s_row = isub M_s_row r count_self;
              M_s_row = iadd M_s_row s count_self;
              M_s_col = np_iadd_at M_s_col b_in count_in;
              M_s_col = isub M_s_col r (sum_where b_out count_out s);
              M_s_col = iadd M_s_col s (sum_where b_out count_out s);
              M_s_col = isub M_s_col r count_self;
              M_s_col = iadd M_s_col s count_self
          in Inr \<lparr>block_row = M_r_row, proposal_row = M_s_row,
                  block_col = M_r_col, proposal_col = M_s_col\<rparr>)"

definition block_merge_edge_count_updates ::
  "int list list \<Rightarrow> nat \<Rightarrow> nat \<Rightarrow> nat list \<Rightarrow> int list \<Rightarrow> nat list \<Rightarrow> int list \<Rightarrow> int
     \<Rightarrow> error + EdgeCountUpdates" where
  "block_merge_edge_count_updates M r s b_out count_out b_in count_in count_self =
     (case kernel_check M r s b_out count_out b_in count_in of
        Some e \<Rightarrow> Inl e
      | None \<Rightarrow>
          let B = length M;
              M_r_row = replicate B 0;
              M_r_col = replicate B 0;
              M_s_row = M ! s;
              M_s_col = col M s;
              M_s_row = np_iadd_at M_s_row b_out count_out;
              M_s_row = isub M_s_row r (sum_where b_in count_in s);
              M_s_row = iadd M_s_row s (sum_where b_in count_in s);
              M_s_row = isub M_s_row r count_self;
              M_s_row = iadd M_s_row s count_self;
              M_s_col = np_iadd_at M_s_col b_in count_in;
              M_s_col = isub M_s_col r (sum_where b_out count_out s);
              M_s_col = iadd M_s_col s (sum_where b_out count_out s);
              M_s_col = isub M_s_col r count_self;
              M_s_col = iadd M_s_col s count_self
          in Inr \<lparr>block_row = M_r_row, proposal_row = M_s_row,
                  block_col = M_r_col, proposal_col = M_s_col\<rparr>)"

definition vertex_reassign_edge_count_updates ::
  "int list list \<Rightarrow> nat \<Rightarrow> nat \<Rightarrow> nat list \<Rightarrow> int list \<Rightarrow> nat list \<Rightarrow> int list \<Rightarrow> int
     \<Rightarrow> error + EdgeCountUpdates" where
  "vertex_reassign_edge_count_updates M r s b_out count_out b_in count_in count_self =
     (case kernel_check M r s b_out count_out b_in count_in of
        Some e \<Rightarrow> Inl e
      | None \<Rightarrow>
          let M_r_row = M ! r;
              M_r_col = col M r;
              M_s_row = M ! s;
              M_s_col = col M s;
              M_r_row = np_isub_at M_r_row b_out count_out;
              M_r_row = isub M_r_row r (sum_where b_in count_in r);
              M_r_row = iadd M_r_row s (sum_where b_in count_in r);
              M_r_col = np_isub_at M_r_col b_in count_in;
              M_r_col = isub M_r_col r (sum_where b_out count_out r);
              M_r_col = iadd M_r_col s (sum_where b_out count_out r);
              M_s_row = np_iadd_at M_s_row b_out count_out;
              M_s_row = isub M_s_row r (sum_where b_in count_in s);
              M_s_row = iadd M_s_row s (sum_where b_in count_in s);
              M_s_row = isub M_s_row r count_self;
              M_s_row = iadd M_s_row s count_self;
              M_s_col = np_iadd_at M_s_col b_in count_in;
              M_s_col = isub M_s_col r (sum_where b_out count_out s);
              M_s_col = iadd M_s_col s (sum_where b_out count_out s);
              M_s_col = isub M_s_col r count_self;
              M_s_col = iadd M_s_col s count_self
          in Inr \<lparr>block_row = M_r_row, proposal_row = M_s_row,
                  block_col = M_r_col, proposal_col = M_s_col\<rparr>)"

text \<open>
  \<^verbatim>\<open>outgoing_edges\<close> and \<^verbatim>\<open>incoming_edges\<close> of \<^verbatim>\<open>block_merge.py\<close>: the nonzero
  positions of row (column) \<open>block\<close> and the entries there; \<^verbatim>\<open>propose_merge\<close> passes the
  two components as the neighbour blocks and their counts.
\<close>

definition outgoing_edges :: "int list list \<Rightarrow> nat \<Rightarrow> error + (nat list \<times> int list)" where
  "outgoing_edges block_matrix block =
     (if \<not> is_square block_matrix then Inl ValueError
      else if \<not> block < length block_matrix then Inl IndexError
      else
        let out_blocks = filter (\<lambda>j. block_matrix ! block ! j \<noteq> 0) [0..<length block_matrix]
        in Inr (out_blocks, map (\<lambda>j. block_matrix ! block ! j) out_blocks))"

definition incoming_edges :: "int list list \<Rightarrow> nat \<Rightarrow> error + (nat list \<times> int list)" where
  "incoming_edges block_matrix block =
     (if \<not> is_square block_matrix then Inl ValueError
      else if \<not> block < length block_matrix then Inl IndexError
      else
        let in_blocks = filter (\<lambda>i. block_matrix ! i ! block \<noteq> 0) [0..<length block_matrix]
        in Inr (in_blocks, map (\<lambda>i. block_matrix ! i ! block) in_blocks))"

section \<open>Committing a vertex move\<close>

text \<open>
  \<^verbatim>\<open>update_partition\<close>: the four vectors are stored as row \<open>r\<close>, row \<open>s\<close>, column \<open>r\<close>,
  column \<open>s\<close>, in this order, so where they overlap the later store stands.
\<close>

definition set_col :: "int list list \<Rightarrow> nat \<Rightarrow> int list \<Rightarrow> int list list" where
  "set_col M j v = map (\<lambda>(row, x). row[j := x]) (zip M v)"

definition update_partition ::
  "Partition \<Rightarrow> nat \<Rightarrow> nat \<Rightarrow> nat \<Rightarrow> EdgeCountUpdates \<Rightarrow> int list \<Rightarrow> int list \<Rightarrow> int list
     \<Rightarrow> error + Partition" where
  "update_partition part ni r s edge_count_updates d_out_new d_in_new d_new =
     (let M = interblock_edge_count part; B = length M in
      if \<not> (ni < length (block_assignment part) \<and> r < B \<and> s < B) then Inl IndexError
      else if \<not> (is_square M \<and> length (block_row edge_count_updates) = B
                 \<and> length (proposal_row edge_count_updates) = B
                 \<and> length (block_col edge_count_updates) = B
                 \<and> length (proposal_col edge_count_updates) = B) then Inl ValueError
      else
        let M = M[r := block_row edge_count_updates];
            M = M[s := proposal_row edge_count_updates];
            M = set_col M r (block_col edge_count_updates);
            M = set_col M s (proposal_col edge_count_updates)
        in Inr (part\<lparr>block_assignment := (block_assignment part)[ni := int s],
                      interblock_edge_count := M,
                      block_degrees_out := d_out_new,
                      block_degrees_in := d_in_new,
                      block_degrees := d_new\<rparr>))"

section \<open>Entropy\<close>

text \<open>
  \<^verbatim>\<open>M.nonzero()\<close>: the positions of the nonzero entries, row by row.
\<close>

definition nonzero2d :: "int list list \<Rightarrow> (nat \<times> nat) list" where
  "nonzero2d M =
     concat (map (\<lambda>i. map (\<lambda>j. (i, j)) (filter (\<lambda>j. M ! i ! j \<noteq> 0) [0..<length (M ! i)]))
                 [0..<length M])"

text \<open>
  \<^verbatim>\<open>compute_overall_entropy\<close>. The model term is written with the precedence Python gives
  the source line
  \<^verbatim>\<open>E * (1 + model_S_term) * np.log(1 + model_S_term) - model_S_term * np.log(model_S_term) + N*np.log(partition.num_blocks)\<close>.
\<close>

definition compute_overall_entropy :: "Partition \<Rightarrow> int \<Rightarrow> int \<Rightarrow> error + npfloat" where
  "compute_overall_entropy part N E =
     (let M = interblock_edge_count part;
          d_out = block_degrees_out part;
          d_in = block_degrees_in part
      in
      if \<not> (is_square M \<and> length d_out = length M \<and> length d_in = length M)
      then Inl ValueError
      else if E = 0 then Inl ZeroDivisionError
      else
        let nonzeros = nonzero2d M;
            entries = map (\<lambda>(i, j).
                        np_mul (Fin (of_int (M ! i ! j)))
                          (np_log (np_div (Fin (of_int (M ! i ! j)))
                                          (Fin (of_int (d_out ! i * d_in ! j)))))) nonzeros;
            data_S = np_neg (np_sum entries);
            model_S_term = of_int ((num_blocks part)\<^sup>2) / of_int E;
            model_S =
              np_add
                (np_sub
                  (np_mul (Fin (of_int E * (1 + model_S_term))) (np_log (Fin (1 + model_S_term))))
                  (np_mul (Fin model_S_term) (np_log (Fin model_S_term))))
                (np_mul (Fin (of_int N)) (np_log (Fin (of_int (num_blocks part)))));
            S = np_add model_S data_S
        in Inr S)"

text \<open>\<^verbatim>\<open>del idx[i]\<close> and \<^verbatim>\<open>a[idx]\<close>.\<close>

definition del_at :: "nat \<Rightarrow> 'a list \<Rightarrow> 'a list" where
  "del_at i xs = take i xs @ drop (Suc i) xs"

definition gather :: "'a list \<Rightarrow> nat list \<Rightarrow> 'a list" where
  "gather xs idx = map (\<lambda>i. xs ! i) idx"

text \<open>
  One of the eight sums of \<^verbatim>\<open>compute_delta_entropy\<close>, before \<^verbatim>\<open>np.sum\<close>: the entries
  \<open>xs\<close> and the degrees \<open>ds\<close> at the same positions are kept where the entry is nonzero, and
  each kept entry \<open>x\<close> gives \<^verbatim>\<open>x * log(float(x) / dj / d)\<close>.
\<close>

definition entropy_terms :: "int list \<Rightarrow> int list \<Rightarrow> int \<Rightarrow> npfloat list" where
  "entropy_terms xs ds d =
     map (\<lambda>(x, dj). np_mul (Fin (of_int x))
                       (np_log (np_div (np_div (Fin (of_int x)) (Fin (of_int dj))) (Fin (of_int d)))))
         (filter (\<lambda>(x, dj). x \<noteq> 0) (zip xs ds))"

definition compute_delta_entropy ::
  "nat \<Rightarrow> nat \<Rightarrow> Partition \<Rightarrow> EdgeCountUpdates \<Rightarrow> int list \<Rightarrow> int list \<Rightarrow> error + npfloat" where
  "compute_delta_entropy r s part edge_count_updates d_out_new d_in_new =
     (let M = interblock_edge_count part; B = length M in
      if \<not> (is_square M \<and> length (block_row edge_count_updates) = B
             \<and> length (proposal_row edge_count_updates) = B
             \<and> length (block_col edge_count_updates) = B
             \<and> length (proposal_col edge_count_updates) = B
             \<and> length d_out_new = B \<and> length d_in_new = B
             \<and> length (block_degrees_out part) = B \<and> length (block_degrees_in part) = B)
      then Inl ValueError
      else if \<not> (max r s < B \<and> min r s < B - 1) then Inl IndexError
      else
        let M_r_row = block_row edge_count_updates;
            M_s_row = proposal_row edge_count_updates;
            M_r_col = block_col edge_count_updates;
            M_s_col = proposal_col edge_count_updates;
            M_r_t1 = M ! r;
            M_s_t1 = M ! s;
            M_t2_r = col M r;
            M_t2_s = col M s;
            idx = [0..<length d_in_new];
            idx = del_at (max r s) idx;
            idx = del_at (min r s) idx;
            M_r_col = gather M_r_col idx;
            M_s_col = gather M_s_col idx;
            M_t2_r = gather M_t2_r idx;
            M_t2_s = gather M_t2_s idx;
            d_out_new' = gather d_out_new idx;
            d_out' = gather (block_degrees_out part) idx;
            delta_entropy = Fin 0;
            delta_entropy = np_sub delta_entropy
              (np_sum (entropy_terms M_r_row d_in_new (d_out_new ! r)));
            delta_entropy = np_sub delta_entropy
              (np_sum (entropy_terms M_s_row d_in_new (d_out_new ! s)));
            delta_entropy = np_sub delta_entropy
              (np_sum (entropy_terms M_r_col d_out_new' (d_in_new ! r)));
            delta_entropy = np_sub delta_entropy
              (np_sum (entropy_terms M_s_col d_out_new' (d_in_new ! s)));
            delta_entropy = np_add delta_entropy
              (np_sum (entropy_terms M_r_t1 (block_degrees_in part) (block_degrees_out part ! r)));
            delta_entropy = np_add delta_entropy
              (np_sum (entropy_terms M_s_t1 (block_degrees_in part) (block_degrees_out part ! s)));
            delta_entropy = np_add delta_entropy
              (np_sum (entropy_terms M_t2_r d_out' (block_degrees_in part ! r)));
            delta_entropy = np_add delta_entropy
              (np_sum (entropy_terms M_t2_s d_out' (block_degrees_in part ! s)))
        in Inr delta_entropy)"

section \<open>Hastings correction\<close>

text \<open>
  \<^verbatim>\<open>np.unique\<close> returns the distinct values in ascending order; \<^verbatim>\<open>np.bincount\<close> over
  the inverse index with weights sums, for each distinct value, the weights at the positions
  holding it.
\<close>

definition np_unique :: "'a::linorder list \<Rightarrow> 'a list" where
  "np_unique xs = sort (remdups xs)"


section \<open>Closed forms used to state the properties\<close>

text \<open>
  The four vectors of a vertex move written entry by entry, following the arithmetic of
  the kernel: \<open>out t\<close> and \<open>inc t\<close> are the aggregated counts of the out- and in-neighbours
  in block \<open>t\<close>, and \<open>c\<close> is the self count.
\<close>

definition vertex_move_vectors ::
  "int list list \<Rightarrow> nat \<Rightarrow> nat \<Rightarrow> (nat \<Rightarrow> int) \<Rightarrow> (nat \<Rightarrow> int) \<Rightarrow> int \<Rightarrow> EdgeCountUpdates" where
  "vertex_move_vectors M r s out inc c =
     \<lparr>block_row = map (\<lambda>t. M ! r ! t - out t - (if t = r then inc r else 0)
                              + (if t = s then inc r else 0)) [0..<length M],
      proposal_row = map (\<lambda>t. M ! s ! t + out t - (if t = r then inc s else 0)
                              + (if t = s then inc s else 0) - (if t = r then c else 0)
                              + (if t = s then c else 0)) [0..<length M],
      block_col = map (\<lambda>t. M ! t ! r - inc t - (if t = r then out r else 0)
                              + (if t = s then out r else 0)) [0..<length M],
      proposal_col = map (\<lambda>t. M ! t ! s + inc t - (if t = r then out s else 0)
                              + (if t = s then out s else 0) - (if t = r then c else 0)
                              + (if t = s then c else 0)) [0..<length M]\<rparr>"

text \<open>
  The matrix after the four stores of \<^verbatim>\<open>update_partition\<close>, entry by entry: column
  \<open>s\<close> is stored last, then column \<open>r\<close>, then row \<open>s\<close>, then row \<open>r\<close>.
\<close>

definition applied_matrix :: "int list list \<Rightarrow> nat \<Rightarrow> nat \<Rightarrow> EdgeCountUpdates \<Rightarrow> int list list" where
  "applied_matrix M r s U =
     map (\<lambda>i. map (\<lambda>j. if j = s then proposal_col U ! i
                        else if j = r then block_col U ! i
                        else if i = s then proposal_row U ! j
                        else if i = r then block_row U ! j
                        else M ! i ! j) [0..<length M]) [0..<length M]"

text \<open>The four vectors of a merge of block \<open>r\<close> into block \<open>s\<close>, entry by entry.\<close>

definition merge_vectors ::
  "int list list \<Rightarrow> nat \<Rightarrow> nat \<Rightarrow> (nat \<Rightarrow> int) \<Rightarrow> (nat \<Rightarrow> int) \<Rightarrow> int \<Rightarrow> EdgeCountUpdates" where
  "merge_vectors M r s out inc c =
     \<lparr>block_row = replicate (length M) 0,
      proposal_row = map (\<lambda>t. M ! s ! t + out t - (if t = r then inc s else 0)
                              + (if t = s then inc s else 0) - (if t = r then c else 0)
                              + (if t = s then c else 0)) [0..<length M],
      block_col = replicate (length M) 0,
      proposal_col = map (\<lambda>t. M ! t ! s + inc t - (if t = r then out s else 0)
                              + (if t = s then out s else 0) - (if t = r then c else 0)
                              + (if t = s then c else 0)) [0..<length M]\<rparr>"

section \<open>The objective as the documentation states it\<close>

text \<open>
  The docstring of \<^verbatim>\<open>compute_overall_entropy\<close> and the specification give
  \<open>S = E h(B\<^sup>2 / E) + N ln B - \<Sum> M\<^sub>i\<^sub>j ln (M\<^sub>i\<^sub>j / (d\<^sub>o\<^sub>u\<^sub>t\<^sub>,\<^sub>i d\<^sub>i\<^sub>n\<^sub>,\<^sub>j))\<close> with
  \<open>h(x) = (1 + x) ln (1 + x) - x ln x\<close>, the sum over the nonzero entries.
\<close>

definition model_h :: "real \<Rightarrow> real" where
  "model_h x = (1 + x) * ln (1 + x) - x * ln x"

definition data_sum :: "int list list \<Rightarrow> int list \<Rightarrow> int list \<Rightarrow> real" where
  "data_sum M d_out d_in =
     (\<Sum>(i, j)\<leftarrow>nonzero2d M.
        of_int (M ! i ! j) * ln (of_int (M ! i ! j) / (of_int (d_out ! i) * of_int (d_in ! j))))"

definition spec_overall_entropy :: "Partition \<Rightarrow> int \<Rightarrow> int \<Rightarrow> real" where
  "spec_overall_entropy part N E =
     of_int E * model_h (of_int ((num_blocks part)\<^sup>2) / of_int E)
     + of_int N * ln (of_int (num_blocks part))
     - data_sum (interblock_edge_count part) (block_degrees_out part) (block_degrees_in part)"

section \<open>The Hastings correction as the specification states it\<close>





section \<open>Choosing the next number of blocks\<close>



definition np_round :: "real \<Rightarrow> int" where
  "np_round x =
     (let f = \<lfloor>x\<rfloor>; d = x - of_int f in
      if d < 1 / 2 then f else if 1 / 2 < d then f + 1 else if even f then f else f + 1)"

text \<open>
  The last four statements of the golden-ratio branch, for the bracket side from
  \<open>high\<close> (\<^verbatim>\<open>partitions[index]\<close>) down to \<open>low\<close> (\<^verbatim>\<open>partitions[index + 1]\<close>).
\<close>

definition golden_ratio_step :: "Partition \<Rightarrow> Partition \<Rightarrow> Partition" where
  "golden_ratio_step high low =
     (let next_B_to_try = num_blocks low;
          next_B_to_try = next_B_to_try
            + np_round (of_int (num_blocks high - num_blocks low) * 0.618)
      in high\<lparr>num_blocks_to_merge := num_blocks high - next_B_to_try\<rparr>)"




section \<open>Carrying out the best merges\<close>

text \<open>
  \<^verbatim>\<open>argsort\<close> orders the doubles ascending with NaN last. numpy's default sort is not
  stable; the properties below are stated for every index order that sorts the delta
  entropies, of which the stable \<open>argsort\<close> is one.
\<close>

fun np_sort_key :: "npfloat \<Rightarrow> nat \<times> real" where
  "np_sort_key NInf = (0, 0)"
| "np_sort_key (Fin x) = (1, x)"
| "np_sort_key PInf = (2, 0)"
| "np_sort_key NaN = (3, 0)"

definition argsort :: "npfloat list \<Rightarrow> nat list" where
  "argsort ds = sort_key (\<lambda>i. np_sort_key (ds ! i)) [0..<length ds]"




text \<open>\<^verbatim>\<open>a[np.where(a == x)] = y\<close>.\<close>

definition replace_all :: "int \<Rightarrow> int \<Rightarrow> int list \<Rightarrow> int list" where
  "replace_all x y a = map (\<lambda>v. if v = x then y else v) a"





text \<open>
  The merge pass as the specification describes it: the blocks are taken in the given
  order; block \<open>a\<close> is to merge into \<open>block_map[best[a]]\<close>; the merge is skipped when the two
  are the same block, and otherwise recorded in \<open>block_map\<close> and committed; the pass stops
  after \<open>k\<close> commits. The result is the list of committed merges \<open>(from, to)\<close>.
\<close>

fun spec_commits :: "nat list \<Rightarrow> int list \<Rightarrow> int list \<Rightarrow> nat \<Rightarrow> (int \<times> int) list" where
  "spec_commits [] best block_map k = []"
| "spec_commits (a # rest) best block_map 0 = []"
| "spec_commits (a # rest) best block_map (Suc k) =
     (let target = block_map ! nat (best ! a mod int (length block_map)) in
      if target = int a then spec_commits rest best block_map (Suc k)
      else (int a, target) # spec_commits rest best (replace_all (int a) target block_map) k)"

definition apply_commits :: "(int \<times> int) list \<Rightarrow> int list \<Rightarrow> int list" where
  "apply_commits commits assignment =
     foldl (\<lambda>asg (a, t). replace_all a t asg) assignment commits"

section \<open>Properties of the array operations\<close>


lemma new_degree_ok:
  "r < length old \<Longrightarrow> s < length old \<Longrightarrow>
   new_degree r s old k = Inr (iadd64 (isub64 old r k) s k)"
  by (simp add: new_degree_def)

lemma length_iadd64 [simp]: "length (iadd64 xs i v) = length xs"
  by (simp add: iadd64_def)

lemma length_isub64 [simp]: "length (isub64 xs i v) = length xs"
  by (simp add: isub64_def)

lemma length_iadd [simp]: "length (iadd xs i v) = length xs"
  by (simp add: iadd_def)

lemma length_isub [simp]: "length (isub xs i v) = length xs"
  by (simp add: isub_def)

lemma nth_iadd: "i < length xs \<Longrightarrow> iadd xs i v ! t = xs ! t + (if t = i then v else 0)"
  by (simp add: iadd_def nth_list_update)

lemma nth_isub: "i < length xs \<Longrightarrow> isub xs i v ! t = xs ! t - (if t = i then v else 0)"
  by (simp add: isub_def nth_list_update)

lemma sum_list_upd_int:
  "i < length xs \<Longrightarrow> sum_list (xs[i := v]) = sum_list xs - xs ! i + (v::int)"
  by (induction xs arbitrary: i) (auto split: nat.splits)

lemma sum_list_iadd: "i < length xs \<Longrightarrow> sum_list (iadd xs i v) = sum_list xs + v"
  by (simp add: iadd_def sum_list_upd_int)

lemma sum_list_isub: "i < length xs \<Longrightarrow> sum_list (isub xs i v) = sum_list xs - v"
  by (simp add: isub_def sum_list_upd_int)

lemma moved_nth:
  "r < length old \<Longrightarrow> s < length old \<Longrightarrow>
   iadd (isub old r k) s k ! t = old ! t - (if t = r then k else 0) + (if t = s then k else 0)"
  by (simp add: nth_iadd nth_isub)

lemma moved_sum:
  "r < length old \<Longrightarrow> s < length old \<Longrightarrow> sum_list (iadd (isub old r k) s k) = sum_list old"
  by (simp add: sum_list_iadd sum_list_isub)

lemma wrap64_id: "in_int64 x \<Longrightarrow> wrap64 x = x"
proof -
  assume "in_int64 x"
  then have "0 \<le> x + 2 ^ 63" and "x + 2 ^ 63 < 2 ^ 64"
    by (simp_all add: in_int64_def)
  then have "(x + 2 ^ 63) mod 2 ^ 64 = x + 2 ^ 63"
    by (rule mod_pos_pos_trivial)
  then show ?thesis
    unfolding wrap64_def by simp
qed

lemma wrap64_in: "in_int64 (wrap64 x)"
proof -
  have "0 \<le> (x + 2 ^ 63) mod 2 ^ 64" and "(x + 2 ^ 63) mod 2 ^ 64 < 2 ^ 64"
    by simp_all
  then show ?thesis
    unfolding wrap64_def in_int64_def by simp
qed

lemma wrap64_decomp: "wrap64 x = x + 2 ^ 64 * (- ((x + 2 ^ 63) div 2 ^ 64))"
proof -
  have "(x + 2 ^ 63) mod 2 ^ 64 = (x + 2 ^ 63) - 2 ^ 64 * ((x + 2 ^ 63) div 2 ^ 64)"
    by (rule minus_mult_div_eq_mod [symmetric])
  then show ?thesis
    unfolding wrap64_def by simp
qed

lemma wrap64_shift: "wrap64 (x + 2 ^ 64 * c) = wrap64 x"
proof -
  have "(x + 2 ^ 64 * c + 2 ^ 63) mod 2 ^ 64 = (x + 2 ^ 63 + 2 ^ 64 * c) mod 2 ^ 64"
    by (simp only: add.assoc add.commute add.left_commute)
  also have "\<dots> = (x + 2 ^ 63) mod 2 ^ 64"
    by (rule mod_mult_self2)
  finally show ?thesis
    by (simp only: wrap64_def)
qed

lemma wrap64_back: "in_int64 x \<Longrightarrow> wrap64 (wrap64 (x - k) + k) = x"
proof -
  assume x: "in_int64 x"
  obtain c where c: "wrap64 (x - k) = x - k + 2 ^ 64 * c"
    using wrap64_decomp [of "x - k"] by blast
  have "wrap64 (x - k) + k = x + 2 ^ 64 * c"
    unfolding c by simp
  then have "wrap64 (wrap64 (x - k) + k) = wrap64 x"
    by (simp only: wrap64_shift)
  then show ?thesis
    using x by (simp only: wrap64_id)
qed

lemma moved64_nth:
  assumes "r < length old" "s < length old" "in_int64 (old ! r)"
  shows "iadd64 (isub64 old r k) s k ! t =
         (if r = s then old ! t
          else if t = r then wrap64 (old ! t - k)
          else if t = s then wrap64 (old ! t + k)
          else old ! t)"
  using assms by (cases "t < length old")
    (simp_all add: iadd64_def isub64_def nth_list_update wrap64_back)

lemma moved64_same:
  assumes "r < length old" "in_int64 (old ! r)"
  shows "iadd64 (isub64 old r k) r k = old"
  using assms by (intro nth_equalityI) (simp_all add: moved64_nth)

lemma moved64_sum:
  assumes "r < length old" "s < length old"
  shows "sum_list (iadd64 (isub64 old r k) s k) mod 2 ^ 64 = sum_list old mod 2 ^ 64"
proof -
  let ?ys = "isub64 old r k"
  obtain c where c: "wrap64 (old ! r - k) = old ! r - k + 2 ^ 64 * c"
    using wrap64_decomp [of "old ! r - k"] by blast
  obtain d where d: "wrap64 (?ys ! s + k) = ?ys ! s + k + 2 ^ 64 * d"
    using wrap64_decomp [of "?ys ! s + k"] by blast
  have "sum_list ?ys = sum_list old - old ! r + wrap64 (old ! r - k)"
    using assms by (simp add: isub64_def sum_list_upd_int)
  then have ys: "sum_list ?ys = sum_list old - k + 2 ^ 64 * c"
    unfolding c by simp
  have "sum_list (iadd64 ?ys s k) = sum_list ?ys - ?ys ! s + wrap64 (?ys ! s + k)"
    using assms by (simp add: iadd64_def sum_list_upd_int)
  then have "sum_list (iadd64 ?ys s k) = sum_list old + 2 ^ 64 * (c + d)"
    unfolding d ys by (simp add: algebra_simps)
  then show ?thesis
    by (simp only: mod_mult_self2)
qed

lemma moved64_exact:
  assumes "r < length old" "s < length old" "in_int64 (old ! r)"
    "in_int64 (old ! r - k)" "in_int64 (old ! s + k)"
  shows "iadd64 (isub64 old r k) s k = iadd (isub old r k) s k"
proof (rule nth_equalityI)
  show "length (iadd64 (isub64 old r k) s k) = length (iadd (isub old r k) s k)"
    by simp
next
  fix t
  assume "t < length (iadd64 (isub64 old r k) s k)"
  then show "iadd64 (isub64 old r k) s k ! t = iadd (isub old r k) s k ! t"
    using assms by (simp add: moved64_nth moved_nth wrap64_id)
qed

lemma np_copy_ok: "a < length h \<Longrightarrow> np_copy h a = Inr (length h, h @ [h ! a])"
  by (simp add: np_copy_def)

lemma store_iadd64_last:
  "i < length x \<Longrightarrow> store_iadd64 (h @ [x]) (length h) i v = Inr (h @ [iadd64 x i v])"
  by (simp add: store_iadd64_def)

lemma store_isub64_last:
  "i < length x \<Longrightarrow> store_isub64 (h @ [x]) (length h) i v = Inr (h @ [isub64 x i v])"
  by (simp add: store_isub64_def)

lemma new_degrees_loop_step:
  assumes "old < length h" "r < length (h ! old)" "s < length (h ! old)"
  shows "new_degrees_loop r s ((old, degree) # rest) new h =
         new_degrees_loop r s rest (new @ [length h])
           (h @ [iadd64 (isub64 (h ! old) r degree) s degree])"
  using assms by (simp add: np_copy_ok store_isub64_last store_iadd64_last)


section \<open>Candidate degrees: what changes and what is written\<close>

text \<open>
  C10 (as amended). Let the three degree vectors of the partition have length \<open>B\<close> and hold
  \<^verbatim>\<open>int64\<close> values, let \<open>r\<close> and \<open>s\<close> be blocks and \<open>k_out\<close>, \<open>k_in\<close>, \<open>k\<close> be \<^verbatim>\<open>int64\<close>
  degrees. Then \<^verbatim>\<open>compute_new_block_degrees\<close> returns three vectors of length \<open>B\<close> that
  agree with the current ones at every block other than \<open>r\<close> and \<open>s\<close>; for \<open>r \<noteq> s\<close> the entry
  at \<open>r\<close> is the current one minus the degree and the entry at \<open>s\<close> the current one plus the
  degree, each reduced to the \<^verbatim>\<open>int64\<close> range by wrap-around; the sums of the vectors are
  unchanged modulo \<open>2\<^sup>6\<^sup>4\<close>; and for \<open>r = s\<close> the vectors equal the current ones. Whenever the
  six differences and sums stay in the \<^verbatim>\<open>int64\<close> range, the entries are exactly the
  current ones with the degree subtracted at \<open>r\<close> and added at \<open>s\<close>, and the sums are
  unchanged. Over the store the three results are arrays at fresh addresses appended to
  the store, so every array stored before the call, the partition's own degree vectors
  among them, is left as it was.
\<close>

theorem compute_new_block_degrees_frame:
  assumes refs: "block_degrees_out_ref refs < length h" "block_degrees_in_ref refs < length h"
      "block_degrees_ref refs < length h"
    and stored: "h ! block_degrees_out_ref refs = block_degrees_out part"
      "h ! block_degrees_in_ref refs = block_degrees_in part"
      "h ! block_degrees_ref refs = block_degrees part"
    and lens: "length (block_degrees_out part) = B"
      "length (block_degrees_in part) = B"
      "length (block_degrees part) = B"
    and blocks: "r < B" "s < B"
    and range: "list_all in_int64 (block_degrees_out part)"
      "list_all in_int64 (block_degrees_in part)"
      "list_all in_int64 (block_degrees part)"
    and degrees: "in_int64 k_out" "in_int64 k_in" "in_int64 k"
  shows "\<exists>d_out_new d_in_new d_new.
    compute_new_block_degrees r s part k_out k_in k = Inr (d_out_new, d_in_new, d_new) \<and>
    compute_new_block_degrees_store r s refs k_out k_in k h =
      Inr ([length h, length h + 1, length h + 2], h @ [d_out_new, d_in_new, d_new]) \<and>
    length d_out_new = B \<and> length d_in_new = B \<and> length d_new = B \<and>
    (\<forall>t<B. d_out_new ! t =
       (if r = s then block_degrees_out part ! t
        else if t = r then wrap64 (block_degrees_out part ! t - k_out)
        else if t = s then wrap64 (block_degrees_out part ! t + k_out)
        else block_degrees_out part ! t)) \<and>
    (\<forall>t<B. d_in_new ! t =
       (if r = s then block_degrees_in part ! t
        else if t = r then wrap64 (block_degrees_in part ! t - k_in)
        else if t = s then wrap64 (block_degrees_in part ! t + k_in)
        else block_degrees_in part ! t)) \<and>
    (\<forall>t<B. d_new ! t =
       (if r = s then block_degrees part ! t
        else if t = r then wrap64 (block_degrees part ! t - k)
        else if t = s then wrap64 (block_degrees part ! t + k)
        else block_degrees part ! t)) \<and>
    list_all in_int64 d_out_new \<and> list_all in_int64 d_in_new \<and> list_all in_int64 d_new \<and>
    sum_list d_out_new mod 2 ^ 64 = sum_list (block_degrees_out part) mod 2 ^ 64 \<and>
    sum_list d_in_new mod 2 ^ 64 = sum_list (block_degrees_in part) mod 2 ^ 64 \<and>
    sum_list d_new mod 2 ^ 64 = sum_list (block_degrees part) mod 2 ^ 64 \<and>
    (r = s \<longrightarrow> d_out_new = block_degrees_out part \<and> d_in_new = block_degrees_in part \<and>
       d_new = block_degrees part) \<and>
    (in_int64 (block_degrees_out part ! r - k_out) \<and>
     in_int64 (block_degrees_out part ! s + k_out) \<and>
     in_int64 (block_degrees_in part ! r - k_in) \<and>
     in_int64 (block_degrees_in part ! s + k_in) \<and>
     in_int64 (block_degrees part ! r - k) \<and>
     in_int64 (block_degrees part ! s + k) \<longrightarrow>
       (\<forall>t<B. d_out_new ! t =
          block_degrees_out part ! t - (if t = r then k_out else 0)
            + (if t = s then k_out else 0)) \<and>
       (\<forall>t<B. d_in_new ! t =
          block_degrees_in part ! t - (if t = r then k_in else 0)
            + (if t = s then k_in else 0)) \<and>
       (\<forall>t<B. d_new ! t =
          block_degrees part ! t - (if t = r then k else 0) + (if t = s then k else 0)) \<and>
       sum_list d_out_new = sum_list (block_degrees_out part) \<and>
       sum_list d_in_new = sum_list (block_degrees_in part) \<and>
       sum_list d_new = sum_list (block_degrees part))"
proof -
  let ?o = "iadd64 (isub64 (block_degrees_out part) r k_out) s k_out"
  let ?i = "iadd64 (isub64 (block_degrees_in part) r k_in) s k_in"
  let ?d = "iadd64 (isub64 (block_degrees part) r k) s k"
  have at_r: "in_int64 (block_degrees_out part ! r)" "in_int64 (block_degrees_in part ! r)"
      "in_int64 (block_degrees part ! r)"
    using range lens blocks by (simp_all add: list_all_length)
  have val: "compute_new_block_degrees r s part k_out k_in k = Inr (?o, ?i, ?d)"
    using lens blocks by (simp add: compute_new_block_degrees_def new_degree_ok)
  have st: "compute_new_block_degrees_store r s refs k_out k_in k h =
      Inr ([length h, length h + 1, length h + 2], h @ [?o, ?i, ?d])"
    using refs stored lens blocks
    by (simp add: compute_new_block_degrees_store_def new_degrees_loop_step nth_append
          del: new_degrees_loop.simps(2))
  have len: "length ?o = B" "length ?i = B" "length ?d = B"
    using lens by simp_all
  have entries:
    "\<forall>t<B. ?o ! t =
       (if r = s then block_degrees_out part ! t
        else if t = r then wrap64 (block_degrees_out part ! t - k_out)
        else if t = s then wrap64 (block_degrees_out part ! t + k_out)
        else block_degrees_out part ! t)"
    "\<forall>t<B. ?i ! t =
       (if r = s then block_degrees_in part ! t
        else if t = r then wrap64 (block_degrees_in part ! t - k_in)
        else if t = s then wrap64 (block_degrees_in part ! t + k_in)
        else block_degrees_in part ! t)"
    "\<forall>t<B. ?d ! t =
       (if r = s then block_degrees part ! t
        else if t = r then wrap64 (block_degrees part ! t - k)
        else if t = s then wrap64 (block_degrees part ! t + k)
        else block_degrees part ! t)"
    using lens blocks at_r by (simp_all only: moved64_nth) simp_all
  have inr: "list_all in_int64 ?o" "list_all in_int64 ?i" "list_all in_int64 ?d"
    using range lens blocks
    by (simp_all add: list_all_length iadd64_def isub64_def nth_list_update wrap64_in)
  have sums: "sum_list ?o mod 2 ^ 64 = sum_list (block_degrees_out part) mod 2 ^ 64"
    "sum_list ?i mod 2 ^ 64 = sum_list (block_degrees_in part) mod 2 ^ 64"
    "sum_list ?d mod 2 ^ 64 = sum_list (block_degrees part) mod 2 ^ 64"
    using lens blocks by (simp_all only: moved64_sum)
  have same: "r = s \<longrightarrow> ?o = block_degrees_out part \<and> ?i = block_degrees_in part \<and>
       ?d = block_degrees part"
  proof
    assume rs: "r = s"
    show "?o = block_degrees_out part \<and> ?i = block_degrees_in part \<and>
       ?d = block_degrees part"
      using lens blocks at_r unfolding rs [symmetric] by (simp add: moved64_same)
  qed
  have exact_o: "in_int64 (block_degrees_out part ! r - k_out) \<and>
      in_int64 (block_degrees_out part ! s + k_out) \<longrightarrow>
      ?o = iadd (isub (block_degrees_out part) r k_out) s k_out"
    using lens blocks at_r by (simp add: moved64_exact)
  have exact_i: "in_int64 (block_degrees_in part ! r - k_in) \<and>
      in_int64 (block_degrees_in part ! s + k_in) \<longrightarrow>
      ?i = iadd (isub (block_degrees_in part) r k_in) s k_in"
    using lens blocks at_r by (simp add: moved64_exact)
  have exact_d: "in_int64 (block_degrees part ! r - k) \<and>
      in_int64 (block_degrees part ! s + k) \<longrightarrow>
      ?d = iadd (isub (block_degrees part) r k) s k"
    using lens blocks at_r by (simp add: moved64_exact)
  have exact: "in_int64 (block_degrees_out part ! r - k_out) \<and>
     in_int64 (block_degrees_out part ! s + k_out) \<and>
     in_int64 (block_degrees_in part ! r - k_in) \<and>
     in_int64 (block_degrees_in part ! s + k_in) \<and>
     in_int64 (block_degrees part ! r - k) \<and>
     in_int64 (block_degrees part ! s + k) \<longrightarrow>
       (\<forall>t<B. ?o ! t =
          block_degrees_out part ! t - (if t = r then k_out else 0)
            + (if t = s then k_out else 0)) \<and>
       (\<forall>t<B. ?i ! t =
          block_degrees_in part ! t - (if t = r then k_in else 0)
            + (if t = s then k_in else 0)) \<and>
       (\<forall>t<B. ?d ! t =
          block_degrees part ! t - (if t = r then k else 0) + (if t = s then k else 0)) \<and>
       sum_list ?o = sum_list (block_degrees_out part) \<and>
       sum_list ?i = sum_list (block_degrees_in part) \<and>
       sum_list ?d = sum_list (block_degrees part)"
  proof
    assume a: "in_int64 (block_degrees_out part ! r - k_out) \<and>
     in_int64 (block_degrees_out part ! s + k_out) \<and>
     in_int64 (block_degrees_in part ! r - k_in) \<and>
     in_int64 (block_degrees_in part ! s + k_in) \<and>
     in_int64 (block_degrees part ! r - k) \<and>
     in_int64 (block_degrees part ! s + k)"
    have eo: "?o = iadd (isub (block_degrees_out part) r k_out) s k_out"
      using a exact_o by blast
    have ei: "?i = iadd (isub (block_degrees_in part) r k_in) s k_in"
      using a exact_i by blast
    have ed: "?d = iadd (isub (block_degrees part) r k) s k"
      using a exact_d by blast
    show "(\<forall>t<B. ?o ! t =
          block_degrees_out part ! t - (if t = r then k_out else 0)
            + (if t = s then k_out else 0)) \<and>
       (\<forall>t<B. ?i ! t =
          block_degrees_in part ! t - (if t = r then k_in else 0)
            + (if t = s then k_in else 0)) \<and>
       (\<forall>t<B. ?d ! t =
          block_degrees part ! t - (if t = r then k else 0) + (if t = s then k else 0)) \<and>
       sum_list ?o = sum_list (block_degrees_out part) \<and>
       sum_list ?i = sum_list (block_degrees_in part) \<and>
       sum_list ?d = sum_list (block_degrees part)"
      unfolding eo ei ed using lens blocks by (simp add: moved_nth moved_sum)
  qed
  show ?thesis
    using val st len entries inr sums same exact by blast
qed

theorem compute_new_block_degrees_frame_witness:
  "\<exists>d_out_new d_in_new d_new.
    compute_new_block_degrees 0 1
      \<lparr>num_blocks = 2, block_assignment = [0, 0, 1], interblock_edge_count = [[2, 0], [1, 1]],
       block_degrees_out = [2, 2], block_degrees_in = [3, 1], block_degrees = [5, 3],
       num_blocks_to_merge = 0\<rparr> 1 1 2 = Inr (d_out_new, d_in_new, d_new) \<and>
    compute_new_block_degrees_store 0 1
      \<lparr>block_degrees_out_ref = 0, block_degrees_in_ref = 1, block_degrees_ref = 2\<rparr> 1 1 2
      [[2, 2], [3, 1], [5, 3]] =
      Inr ([3, 4, 5], [[2, 2], [3, 1], [5, 3], d_out_new, d_in_new, d_new]) \<and>
    d_out_new = [1, 3] \<and> d_in_new = [2, 2] \<and> d_new = [3, 5]"
  using compute_new_block_degrees_frame [where
      refs = "\<lparr>block_degrees_out_ref = 0, block_degrees_in_ref = 1, block_degrees_ref = 2\<rparr>"
      and h = "[[2, 2], [3, 1], [5, 3]]"
      and part = "\<lparr>num_blocks = 2, block_assignment = [0, 0, 1],
        interblock_edge_count = [[2, 0], [1, 1]],
        block_degrees_out = [2, 2], block_degrees_in = [3, 1], block_degrees = [5, 3],
        num_blocks_to_merge = 0\<rparr>"
      and B = 2 and r = 0 and s = 1 and k_out = 1 and k_in = 1 and k = 2]
  by (simp add: compute_new_block_degrees_def new_degree_def iadd64_def isub64_def wrap64_def
        in_int64_def)

text \<open>
  The claim as first stated, with the exact difference and sum and unchanged vector sums
  for every degree triple, fails where the \<^verbatim>\<open>int64\<close> addition overflows: with one edge of
  weight \<open>2\<^sup>6\<^sup>3 - 1\<close> from block 0 to block 1 the total degree of block 0 is \<open>2\<^sup>6\<^sup>3 - 1\<close>, and
  moving a vertex of total degree 1 from block 1 into block 0 stores \<open>-2\<^sup>6\<^sup>3\<close> there, not
  \<open>2\<^sup>6\<^sup>3\<close>; the sum of the total degrees changes from \<open>2\<^sup>6\<^sup>4 - 2\<close> to \<open>-2\<close>.
\<close>

theorem compute_new_block_degrees_frame_counterexample:
  "compute_new_block_degrees 1 0
     \<lparr>num_blocks = 2, block_assignment = [0, 1, 1],
      interblock_edge_count = [[0, 9223372036854775807], [0, 0]],
      block_degrees_out = [9223372036854775807, 0],
      block_degrees_in = [0, 9223372036854775807],
      block_degrees = [9223372036854775807, 9223372036854775807],
      num_blocks_to_merge = 0\<rparr> 0 1 1 =
     Inr ([9223372036854775807, 0], [1, 9223372036854775806],
          [- 9223372036854775808, 9223372036854775806]) \<and>
   [- 9223372036854775808, 9223372036854775806] ! 0 \<noteq> (9223372036854775807 + 1 :: int) \<and>
   sum_list [- 9223372036854775808, 9223372036854775806 :: int] \<noteq>
     sum_list [9223372036854775807, 9223372036854775807]"
  by (simp add: compute_new_block_degrees_def new_degree_def iadd64_def isub64_def wrap64_def)

lemma sum_where_Nil [simp]: "sum_where [] c t = 0"
  by (simp add: sum_where_def)

lemma sum_where_Cons [simp]:
  "sum_where (x # b) (v # c) t = (if x = t then v else 0) + sum_where b c t"
  by (simp add: sum_where_def)

lemma sum_where_notin: "t \<notin> set b \<Longrightarrow> sum_where b c t = 0"
proof -
  assume "t \<notin> set b"
  then have "filter (\<lambda>(x, c). x = t) (zip b c) = []"
    by (auto simp: filter_empty_conv dest: set_zip_leftD)
  then show ?thesis by (simp add: sum_where_def)
qed

lemma fold_scatter_length [simp]:
  "length (fold (\<lambda>(i, v) acc. acc[i := f i v]) ps acc) = length acc"
  by (induction ps arbitrary: acc) auto

lemma length_np_iadd_at [simp]: "length (np_iadd_at xs idx vals) = length xs"
  by (simp add: np_iadd_at_def)

lemma length_np_isub_at [simp]: "length (np_isub_at xs idx vals) = length xs"
  by (simp add: np_isub_at_def)

lemma fold_scatter_nth:
  assumes "distinct idx" "length vals = length idx" "j < length acc"
  shows "fold (\<lambda>(i, v) acc. acc[i := g i + h v]) (zip idx vals) acc ! j =
         (if j \<in> set idx then g j + h (sum_where idx vals j) else acc ! j)"
  using assms(2,1,3)
proof (induction vals idx arbitrary: acc rule: list_induct2)
  case Nil
  then show ?case by simp
next
  case (Cons v vs i js)
  then show ?case
    by (auto simp: sum_where_notin nth_list_update)
qed

lemma nth_np_iadd_at:
  assumes "distinct idx" "length vals = length idx" "j < length xs"
  shows "np_iadd_at xs idx vals ! j = xs ! j + sum_where idx vals j"
  using fold_scatter_nth [OF assms(1,2), of j xs "\<lambda>i. xs ! i" "\<lambda>v. v"] assms(3)
  by (simp add: np_iadd_at_def sum_where_notin)

lemma nth_np_isub_at:
  assumes "distinct idx" "length vals = length idx" "j < length xs"
  shows "np_isub_at xs idx vals ! j = xs ! j - sum_where idx vals j"
  using fold_scatter_nth [OF assms(1,2), of j xs "\<lambda>i. xs ! i" "\<lambda>v. - v"] assms(3)
  by (simp add: np_isub_at_def sum_where_notin)

lemma length_col [simp]: "length (col M j) = length M"
  by (simp add: col_def)

lemma nth_col: "i < length M \<Longrightarrow> col M j ! i = M ! i ! j"
  by (simp add: col_def)

lemma length_set_col [simp]: "length v = length M \<Longrightarrow> length (set_col M j v) = length M"
  by (simp add: set_col_def)

lemma nth_set_col:
  "length v = length M \<Longrightarrow> i < length M \<Longrightarrow> set_col M j v ! i = (M ! i)[j := v ! i]"
  by (simp add: set_col_def)

lemma is_square_nth: "is_square M \<Longrightarrow> i < length M \<Longrightarrow> length (M ! i) = length M"
  by (simp add: is_square_def list_all_length)

lemma kernel_check_None:
  "kernel_check M r s b_out count_out b_in count_in = None \<longleftrightarrow>
     is_square M \<and> length count_out = length b_out \<and> length count_in = length b_in \<and>
     r < length M \<and> s < length M \<and> (\<forall>t\<in>set b_out. t < length M) \<and> (\<forall>t\<in>set b_in. t < length M)"
  by (auto simp: kernel_check_def Let_def list_all_iff)


lemma nth_moved:
  "r < length xs \<Longrightarrow> s < length xs \<Longrightarrow>
   iadd (isub xs r v) s v ! t = xs ! t - (if t = r then v else 0) + (if t = s then v else 0)"
  by (simp add: iadd_def isub_def nth_list_update)

lemma vertex_reassign_closed_form:
  assumes ok: "kernel_check M r s b_out count_out b_in count_in = None"
    and d: "distinct b_out" "distinct b_in"
  shows "vertex_reassign_edge_count_updates M r s b_out count_out b_in count_in count_self =
         Inr (vertex_move_vectors M r s (sum_where b_out count_out) (sum_where b_in count_in)
                count_self)"
proof -
  from ok have sq: "is_square M" and lo: "length count_out = length b_out"
    and li: "length count_in = length b_in" and r: "r < length M" and s: "s < length M"
    by (simp_all add: kernel_check_None)
  have lr: "length (M ! r) = length M" and ls: "length (M ! s) = length M"
    using sq r s by (simp_all add: is_square_nth)
  have rows: "\<And>t. t < length M \<Longrightarrow> length (M ! t) = length M"
    using sq by (simp add: is_square_nth)
  show ?thesis
    unfolding vertex_reassign_edge_count_updates_def vertex_move_vectors_def Let_def
    using ok r s lr ls d lo li
    by (auto intro!: nth_equalityI
        simp: nth_moved nth_np_iadd_at nth_np_isub_at nth_col)
qed


lemma compute_new_rows_cols_vertex:
  "compute_new_rows_cols_interblock_edge_count_matrix M r s b_out count_out b_in count_in
     count_self False =
   vertex_reassign_edge_count_updates M r s b_out count_out b_in count_in count_self"
  by (simp add: compute_new_rows_cols_interblock_edge_count_matrix_def
      vertex_reassign_edge_count_updates_def Let_def split: option.split)

lemma update_partition_closed_form:
  assumes "ni < length (block_assignment part)" "r < length (interblock_edge_count part)"
    "s < length (interblock_edge_count part)" "is_square (interblock_edge_count part)"
    "length (block_row U) = length (interblock_edge_count part)"
    "length (proposal_row U) = length (interblock_edge_count part)"
    "length (block_col U) = length (interblock_edge_count part)"
    "length (proposal_col U) = length (interblock_edge_count part)"
  shows "update_partition part ni r s U d_out_new d_in_new d_new =
         Inr (part\<lparr>block_assignment := (block_assignment part)[ni := int s],
                    interblock_edge_count := applied_matrix (interblock_edge_count part) r s U,
                    block_degrees_out := d_out_new,
                    block_degrees_in := d_in_new,
                    block_degrees := d_new\<rparr>)"
proof -
  let ?M = "interblock_edge_count part"
  have rows: "\<And>t. t < length ?M \<Longrightarrow> length (?M ! t) = length ?M"
    using assms(4) by (simp add: is_square_nth)
  have "set_col (set_col (?M[r := block_row U, s := proposal_row U]) r (block_col U)) s
          (proposal_col U) = applied_matrix ?M r s U"
    unfolding applied_matrix_def
    using assms rows
    by (auto intro!: nth_equalityI simp: nth_set_col nth_list_update)
  then show ?thesis
    using assms by (simp add: update_partition_def Let_def)
qed

lemma length_vertex_move_vectors [simp]:
  "length (block_row (vertex_move_vectors M r s out inc c)) = length M"
  "length (proposal_row (vertex_move_vectors M r s out inc c)) = length M"
  "length (block_col (vertex_move_vectors M r s out inc c)) = length M"
  "length (proposal_col (vertex_move_vectors M r s out inc c)) = length M"
  by (simp_all add: vertex_move_vectors_def)

section \<open>A vertex move that stays in its block\<close>

text \<open>
  C7 (as amended). With \<open>s = r\<close> the vertex-move kernel does not return the identity
  update. Both entry points of the kernel return the same four vectors, and storing them
  with \<^verbatim>\<open>update_partition\<close> adds the out-neighbour count of \<open>t\<close> to \<open>M[r, t]\<close> for
  every \<open>t \<noteq> r\<close> and the in-neighbour count of \<open>t\<close> to \<open>M[t, r]\<close> for every \<open>t\<close>; the
  matrix is unchanged exactly when all these counts are zero.
\<close>

theorem same_block_update:
  assumes ok: "kernel_check M r r b_out count_out b_in count_in = None"
    and d: "distinct b_out" "distinct b_in"
    and M: "interblock_edge_count part = M"
    and ni: "ni < length (block_assignment part)"
  shows "\<exists>U part'.
     vertex_reassign_edge_count_updates M r r b_out count_out b_in count_in count_self = Inr U \<and>
     compute_new_rows_cols_interblock_edge_count_matrix M r r b_out count_out b_in count_in
       count_self False = Inr U \<and>
     update_partition part ni r r U d_out_new d_in_new d_new = Inr part' \<and>
     length (interblock_edge_count part') = length M \<and>
     (\<forall>i<length M. length (interblock_edge_count part' ! i) = length M \<and>
        (\<forall>j<length M. interblock_edge_count part' ! i ! j =
           M ! i ! j + (if i = r \<and> j \<noteq> r then sum_where b_out count_out j else 0)
                     + (if j = r then sum_where b_in count_in i else 0))) \<and>
     (interblock_edge_count part' = M \<longleftrightarrow>
        (\<forall>t<length M. (t \<noteq> r \<longrightarrow> sum_where b_out count_out t = 0)
            \<and> sum_where b_in count_in t = 0))"
proof -
  let ?U = "vertex_move_vectors M r r (sum_where b_out count_out) (sum_where b_in count_in)
              count_self"
  let ?M' = "applied_matrix M r r ?U"
  from ok have sq: "is_square M" and r: "r < length M"
    by (simp_all add: kernel_check_None)
  have rows: "\<And>t. t < length M \<Longrightarrow> length (M ! t) = length M"
    using sq by (simp add: is_square_nth)
  have k: "vertex_reassign_edge_count_updates M r r b_out count_out b_in count_in count_self
           = Inr ?U"
    using ok d by (rule vertex_reassign_closed_form)
  have u: "update_partition part ni r r ?U d_out_new d_in_new d_new =
           Inr (part\<lparr>block_assignment := (block_assignment part)[ni := int r],
                    interblock_edge_count := ?M',
                    block_degrees_out := d_out_new,
                    block_degrees_in := d_in_new,
                    block_degrees := d_new\<rparr>)"
    using update_partition_closed_form [of ni part r r ?U] ni r sq M by simp
  have len: "length ?M' = length M"
    by (simp add: applied_matrix_def)
  have entries: "\<forall>i<length M. length (?M' ! i) = length M \<and>
        (\<forall>j<length M. ?M' ! i ! j =
           M ! i ! j + (if i = r \<and> j \<noteq> r then sum_where b_out count_out j else 0)
                     + (if j = r then sum_where b_in count_in i else 0))"
    using r by (simp add: applied_matrix_def vertex_move_vectors_def)
  have iff: "?M' = M \<longleftrightarrow>
        (\<forall>t<length M. (t \<noteq> r \<longrightarrow> sum_where b_out count_out t = 0)
            \<and> sum_where b_in count_in t = 0)" (is "?L \<longleftrightarrow> ?R")
  proof
    assume L: ?L
    show ?R
    proof (intro allI impI conjI)
      fix t assume t: "t < length M" and "t \<noteq> r"
      with entries r have "?M' ! r ! t = M ! r ! t + sum_where b_out count_out t"
        by simp
      with L show "sum_where b_out count_out t = 0" by simp
    next
      fix t assume t: "t < length M"
      with entries r have "?M' ! t ! r = M ! t ! r + sum_where b_in count_in t"
        by simp
      with L show "sum_where b_in count_in t = 0" by simp
    qed
  next
    assume R: ?R
    show ?L
    proof (rule nth_equalityI)
      show "length ?M' = length M" by (rule len)
    next
      fix i assume "i < length ?M'"
      then have i: "i < length M" using len by simp
      show "?M' ! i = M ! i"
      proof (rule nth_equalityI)
        show "length (?M' ! i) = length (M ! i)" using entries i rows by simp
      next
        fix j assume "j < length (?M' ! i)"
        then have j: "j < length M" using entries i by simp
        from entries i j R show "?M' ! i ! j = M ! i ! j" by simp
      qed
    qed
  qed
  show ?thesis
    using k u len entries iff by (simp add: compute_new_rows_cols_vertex)
qed

theorem same_block_update_witness:
  "\<exists>U part'.
     vertex_reassign_edge_count_updates [[0, 1], [0, 0]] 0 0 [1] [1] [] [] 0 = Inr U \<and>
     update_partition
       \<lparr>num_blocks = 2, block_assignment = [0, 1], interblock_edge_count = [[0, 1], [0, 0]],
        block_degrees_out = [1, 0], block_degrees_in = [0, 1], block_degrees = [1, 1],
        num_blocks_to_merge = 0\<rparr> 0 0 0 U [1, 0] [0, 1] [1, 1] = Inr part' \<and>
     interblock_edge_count part' ! 0 ! 1 = 2 \<and>
     interblock_edge_count part' \<noteq> [[0, 1], [0, 0]]"
  using same_block_update [where M = "[[0, 1], [0, 0]]" and r = 0 and b_out = "[1]"
      and count_out = "[1]" and b_in = "[]" and count_in = "[]" and count_self = 0 and ni = 0
      and part = "\<lparr>num_blocks = 2, block_assignment = [0, 1],
        interblock_edge_count = [[0, 1], [0, 0]],
        block_degrees_out = [1, 0], block_degrees_in = [0, 1], block_degrees = [1, 1],
        num_blocks_to_merge = 0\<rparr>"
      and d_out_new = "[1, 0]" and d_in_new = "[0, 1]" and d_new = "[1, 1]"]
  by (auto simp: kernel_check_def is_square_def)

text \<open>
  The claim as stated fails for a vertex of block 0 with one edge into block 1 and a
  proposal \<open>s = r = 0\<close>: the stored matrix has \<open>M[0, 1] = 2\<close> instead of \<open>1\<close>.
\<close>

theorem same_block_update_counterexample:
  "vertex_reassign_edge_count_updates [[0, 1], [0, 0]] 0 0 [1] [1] [] [] 0 =
     Inr \<lparr>block_row = [0, 0], proposal_row = [0, 2], block_col = [0, 0],
          proposal_col = [0, 0]\<rparr> \<and>
   update_partition
     \<lparr>num_blocks = 2, block_assignment = [0, 1], interblock_edge_count = [[0, 1], [0, 0]],
      block_degrees_out = [1, 0], block_degrees_in = [0, 1], block_degrees = [1, 1],
      num_blocks_to_merge = 0\<rparr> 0 0 0
     \<lparr>block_row = [0, 0], proposal_row = [0, 2], block_col = [0, 0], proposal_col = [0, 0]\<rparr>
     [1, 0] [0, 1] [1, 1] =
     Inr \<lparr>num_blocks = 2, block_assignment = [0, 1], interblock_edge_count = [[0, 2], [0, 0]],
          block_degrees_out = [1, 0], block_degrees_in = [0, 1], block_degrees = [1, 1],
          num_blocks_to_merge = 0\<rparr> \<and>
   [[0, 2], [0, 0]] \<noteq> [[0, 1], [0, 0 :: int]]"
  by (simp add: vertex_reassign_edge_count_updates_def kernel_check_def is_square_def
      update_partition_def set_col_def col_def np_iadd_at_def np_isub_at_def iadd_def isub_def
      sum_where_def Let_def)

lemma sum_where_map:
  "distinct xs \<Longrightarrow> sum_where xs (map f xs) t = (if t \<in> set xs then f t else 0)"
  by (induction xs) auto

lemma outgoing_edges_counts:
  assumes "outgoing_edges M r = Inr (b_out, count_out)"
  shows "is_square M \<and> r < length M \<and> distinct b_out \<and> length count_out = length b_out \<and>
         (\<forall>t\<in>set b_out. t < length M) \<and>
         (\<forall>t<length M. sum_where b_out count_out t = M ! r ! t)"
  using assms
  by (auto simp: outgoing_edges_def Let_def sum_where_map split: if_splits)

lemma incoming_edges_counts:
  assumes "incoming_edges M r = Inr (b_in, count_in)"
  shows "is_square M \<and> r < length M \<and> distinct b_in \<and> length count_in = length b_in \<and>
         (\<forall>t\<in>set b_in. t < length M) \<and>
         (\<forall>t<length M. sum_where b_in count_in t = M ! t ! r)"
  using assms
  by (auto simp: incoming_edges_def Let_def sum_where_map split: if_splits)

lemma block_merge_closed_form:
  assumes ok: "kernel_check M r s b_out count_out b_in count_in = None"
    and d: "distinct b_out" "distinct b_in"
  shows "block_merge_edge_count_updates M r s b_out count_out b_in count_in count_self =
         Inr (merge_vectors M r s (sum_where b_out count_out) (sum_where b_in count_in)
                count_self)"
proof -
  from ok have sq: "is_square M" and lo: "length count_out = length b_out"
    and li: "length count_in = length b_in" and r: "r < length M" and s: "s < length M"
    by (simp_all add: kernel_check_None)
  have ls: "length (M ! s) = length M"
    using sq s by (simp add: is_square_nth)
  show ?thesis
    unfolding block_merge_edge_count_updates_def merge_vectors_def Let_def
    using ok r s ls d lo li
    by (auto intro!: nth_equalityI
        simp: nth_moved nth_np_iadd_at nth_np_isub_at nth_col)
qed

lemma compute_new_rows_cols_merge:
  "compute_new_rows_cols_interblock_edge_count_matrix M r s b_out count_out b_in count_in
     count_self True =
   block_merge_edge_count_updates M r s b_out count_out b_in count_in count_self"
  by (simp add: compute_new_rows_cols_interblock_edge_count_matrix_def
      block_merge_edge_count_updates_def Let_def split: option.split)

section \<open>The merge update\<close>

text \<open>
  C5. For a merge of block \<open>r\<close> into block \<open>s\<close> with neighbour counts aggregated by distinct
  block, \<^verbatim>\<open>block_merge_edge_count_updates\<close> returns zero vectors for row and column \<open>r\<close>;
  row \<open>s\<close> is \<open>M[s, \<cdot>]\<close> plus the out-neighbour counts, minus the in-count of \<open>s\<close> plus the
  self count at index \<open>r\<close>, plus the same quantity at index \<open>s\<close>; column \<open>s\<close> is the same
  with the roles of the in- and out-neighbours exchanged. When the matrix is nonnegative
  and the counts are those of block \<open>r\<close> (its row, its column and \<open>M[r, r]\<close>, as
  \<^verbatim>\<open>outgoing_edges\<close> and \<^verbatim>\<open>incoming_edges\<close> deliver them), all four vectors are
  nonnegative.
\<close>

theorem block_merge_updates:
  assumes ok: "kernel_check M r s b_out count_out b_in count_in = None"
    and d: "distinct b_out" "distinct b_in"
  shows "\<exists>U.
     block_merge_edge_count_updates M r s b_out count_out b_in count_in count_self = Inr U \<and>
     block_row U = replicate (length M) 0 \<and> block_col U = replicate (length M) 0 \<and>
     length (proposal_row U) = length M \<and> length (proposal_col U) = length M \<and>
     (\<forall>t<length M. proposal_row U ! t =
        M ! s ! t + sum_where b_out count_out t
        - (if t = r then sum_where b_in count_in s + count_self else 0)
        + (if t = s then sum_where b_in count_in s + count_self else 0)) \<and>
     (\<forall>t<length M. proposal_col U ! t =
        M ! t ! s + sum_where b_in count_in t
        - (if t = r then sum_where b_out count_out s + count_self else 0)
        + (if t = s then sum_where b_out count_out s + count_self else 0)) \<and>
     ((\<forall>i<length M. \<forall>j<length M. 0 \<le> M ! i ! j) \<and>
      (\<forall>t<length M. sum_where b_out count_out t = M ! r ! t) \<and>
      (\<forall>t<length M. sum_where b_in count_in t = M ! t ! r) \<and>
      count_self = M ! r ! r \<longrightarrow>
      (\<forall>t<length M. 0 \<le> block_row U ! t \<and> 0 \<le> block_col U ! t \<and>
         0 \<le> proposal_row U ! t \<and> 0 \<le> proposal_col U ! t))"
proof -
  from ok have r: "r < length M" and s: "s < length M"
    by (simp_all add: kernel_check_None)
  show ?thesis
    using block_merge_closed_form [OF ok d, of count_self] r s
    by (auto simp: merge_vectors_def)
qed

theorem block_merge_updates_witness:
  "outgoing_edges [[1, 2], [3, 4]] 0 = Inr ([0, 1], [1, 2]) \<and>
   incoming_edges [[1, 2], [3, 4]] 0 = Inr ([0, 1], [1, 3]) \<and>
   (\<exists>U. block_merge_edge_count_updates [[1, 2], [3, 4]] 0 1 [0, 1] [1, 2] [0, 1] [1, 3] 1 = Inr U \<and>
     block_row U = [0, 0] \<and> block_col U = [0, 0] \<and>
     proposal_row U = [0, 10] \<and> proposal_col U = [0, 10])"
  using block_merge_updates [where M = "[[1, 2], [3, 4]]" and r = 0 and s = 1
      and b_out = "[0, 1]" and count_out = "[1, 2]" and b_in = "[0, 1]" and count_in = "[1, 3]"
      and count_self = 1]
  by (auto simp: kernel_check_def is_square_def outgoing_edges_def incoming_edges_def
      block_merge_edge_count_updates_def col_def np_iadd_at_def iadd_def isub_def)

lemma nonzero2d_one: "nonzero2d [[2]] = [(0, 0)]"
  by (simp add: nonzero2d_def)

lemma ex1_code:
  "compute_overall_entropy
     \<lparr>num_blocks = 1, block_assignment = [0], interblock_edge_count = [[2]],
      block_degrees_out = [2], block_degrees_in = [2], block_degrees = [4],
      num_blocks_to_merge = 0\<rparr> 1 2 = Inr (Fin (3 * ln (3 / 2) + ln 2 / 2 + 2 * ln 2))"
  apply (simp add: compute_overall_entropy_def is_square_def nonzero2d_one np_sum_def np_sub_def Let_def)
  apply (simp add: ln_div)
  done

lemma ex1_spec:
  "spec_overall_entropy
     \<lparr>num_blocks = 1, block_assignment = [0], interblock_edge_count = [[2]],
      block_degrees_out = [2], block_degrees_in = [2], block_degrees = [4],
      num_blocks_to_merge = 0\<rparr> 1 2 = 3 * ln (3 / 2) + ln 2 + 2 * ln 2"
  apply (simp add: spec_overall_entropy_def model_h_def data_sum_def nonzero2d_one)
  apply (simp add: ln_div)
  done

section \<open>The model term of the overall entropy\<close>

text \<open>
  C1. The claim is the documented formula: the whole of \<open>h(B\<^sup>2 / E)\<close> is multiplied by \<open>E\<close>.
  The source line multiplies only \<open>(1 + x) ln (1 + x)\<close> by \<open>E\<close> and subtracts \<open>x ln x\<close> once.
  For one block holding one vertex with a self-loop of weight 2 (\<open>B = 1\<close>, \<open>N = 1\<close>,
  \<open>E = 2\<close>, \<open>x = 1/2\<close>) the code returns the documented value less \<open>ln 2 / 2\<close>.
\<close>

theorem compute_overall_entropy_model_term:
  "compute_overall_entropy
     \<lparr>num_blocks = 1, block_assignment = [0], interblock_edge_count = [[2]],
      block_degrees_out = [2], block_degrees_in = [2], block_degrees = [4],
      num_blocks_to_merge = 0\<rparr> 1 2 =
   Inr (Fin (spec_overall_entropy
     \<lparr>num_blocks = 1, block_assignment = [0], interblock_edge_count = [[2]],
      block_degrees_out = [2], block_degrees_in = [2], block_degrees = [4],
      num_blocks_to_merge = 0\<rparr> 1 2 - ln 2 / 2)) \<and>
   compute_overall_entropy
     \<lparr>num_blocks = 1, block_assignment = [0], interblock_edge_count = [[2]],
      block_degrees_out = [2], block_degrees_in = [2], block_degrees = [4],
      num_blocks_to_merge = 0\<rparr> 1 2 \<noteq>
   Inr (Fin (spec_overall_entropy
     \<lparr>num_blocks = 1, block_assignment = [0], interblock_edge_count = [[2]],
      block_degrees_out = [2], block_degrees_in = [2], block_degrees = [4],
      num_blocks_to_merge = 0\<rparr> 1 2))"
proof -
  have "ln (2::real) \<noteq> 0" by simp
  then show ?thesis
    unfolding ex1_code ex1_spec by simp
qed

lemma ex2_kernel:
  "vertex_reassign_edge_count_updates [[2, 0], [1, 1]] 0 1 [0] [1] [0] [1] 1 =
     Inr \<lparr>block_row = [0, 1], proposal_row = [1, 2], block_col = [0, 2],
          proposal_col = [0, 2]\<rparr>"
  by (simp add: vertex_reassign_edge_count_updates_def kernel_check_def is_square_def
      col_def np_iadd_at_def np_isub_at_def iadd_def isub_def sum_where_def Let_def)

lemma ex2_degrees:
  "compute_new_block_degrees 0 1
     \<lparr>num_blocks = 2, block_assignment = [0, 0, 1], interblock_edge_count = [[2, 0], [1, 1]],
      block_degrees_out = [2, 2], block_degrees_in = [3, 1], block_degrees = [5, 3],
      num_blocks_to_merge = 0\<rparr> 1 1 2 = Inr ([1, 3], [2, 2], [3, 5])"
  by (simp add: compute_new_block_degrees_def new_degree_def iadd64_def isub64_def wrap64_def)

lemma ex2_update:
  "update_partition
     \<lparr>num_blocks = 2, block_assignment = [0, 0, 1], interblock_edge_count = [[2, 0], [1, 1]],
      block_degrees_out = [2, 2], block_degrees_in = [3, 1], block_degrees = [5, 3],
      num_blocks_to_merge = 0\<rparr> 0 0 1
     \<lparr>block_row = [0, 1], proposal_row = [1, 2], block_col = [0, 2], proposal_col = [0, 2]\<rparr>
     [1, 3] [2, 2] [3, 5] =
   Inr \<lparr>num_blocks = 2, block_assignment = [1, 0, 1], interblock_edge_count = [[0, 0], [2, 2]],
        block_degrees_out = [1, 3], block_degrees_in = [2, 2], block_degrees = [3, 5],
        num_blocks_to_merge = 0\<rparr>"
  by (simp add: update_partition_def is_square_def set_col_def Let_def)

lemma ln6: "ln (6::real) = ln 2 + ln 3"
  using ln_mult_pos [of "2::real" 3] by simp

lemma ln4: "ln (4::real) = 2 * ln 2"
  using ln_mult_pos [of "2::real" 2] by simp

lemma ex3_delta:
  "compute_delta_entropy 0 1
     \<lparr>num_blocks = 2, block_assignment = [0, 0, 1], interblock_edge_count = [[2, 0], [1, 1]],
      block_degrees_out = [2, 2], block_degrees_in = [3, 1], block_degrees = [5, 3],
      num_blocks_to_merge = 0\<rparr>
     \<lparr>block_row = [0, 1], proposal_row = [1, 2], block_col = [0, 2], proposal_col = [0, 2]\<rparr>
     [1, 3] [2, 2] = Inr (Fin 0)"
  apply (simp add: compute_delta_entropy_def is_square_def Let_def del_at_def gather_def
      entropy_terms_def col_def np_sum_def np_sub_def)
  done

lemma nonzero2d_old: "nonzero2d [[2, 0], [1, 1]] = [(0, 0), (1, 0), (1, 1)]"
  by (simp add: nonzero2d_def)

lemma nonzero2d_new: "nonzero2d [[0, 0], [2, 2]] = [(1, 0), (1, 1)]"
  by (simp add: nonzero2d_def)

lemma ex3_old:
  "compute_overall_entropy
     \<lparr>num_blocks = 2, block_assignment = [0, 0, 1], interblock_edge_count = [[2, 0], [1, 1]],
      block_degrees_out = [2, 2], block_degrees_in = [3, 1], block_degrees = [5, 3],
      num_blocks_to_merge = 0\<rparr> 3 4 = Inr (Fin (13 * ln 2 + 3 * ln 3))"
  apply (simp add: compute_overall_entropy_def is_square_def nonzero2d_old np_sum_def np_sub_def
      Let_def)
  apply (simp add: ln_div ln6)
  done

lemma ex3_new:
  "compute_overall_entropy
     \<lparr>num_blocks = 2, block_assignment = [1, 0, 1], interblock_edge_count = [[0, 0], [2, 2]],
      block_degrees_out = [1, 3], block_degrees_in = [2, 2], block_degrees = [3, 5],
      num_blocks_to_merge = 0\<rparr> 3 4 = Inr (Fin (11 * ln 2 + 4 * ln 3))"
  apply (simp add: compute_overall_entropy_def is_square_def nonzero2d_new np_sum_def np_sub_def
      Let_def)
  apply (simp add: ln_div ln6)
  done

lemma ln3_less: "ln (3::real) < 2 * ln 2"
proof -
  have "ln (3::real) < ln 4" by simp
  then show ?thesis by (simp add: ln4)
qed

section \<open>A vertex with a self-loop leaves its block\<close>

text \<open>
  The input of the next two theorems: vertices 0 and 1 in block 0, vertex 2 in block 1,
  edges \<open>0 \<rightarrow> 0\<close>, \<open>1 \<rightarrow> 1\<close>, \<open>2 \<rightarrow> 1\<close>, \<open>2 \<rightarrow> 2\<close> of weight 1, so \<open>M = [[2, 0], [1, 1]]\<close>,
  \<open>N = 3\<close>, \<open>E = 4\<close>. Vertex 0 is moved from \<open>r = 0\<close> to \<open>s = 1\<close>. Its only out-neighbour and
  only in-neighbour is itself, in block 0, so the aggregated counts are
  \<open>b_out = [0]\<close>, \<open>count_out = [1]\<close>, \<open>b_in = [0]\<close>, \<open>count_in = [1]\<close>, the self count is 1 and
  \<open>k_out = k_in = 1\<close>, \<open>k = 2\<close>.
\<close>

text \<open>
  C2. The claim asks that the row sums of the matrix stored by \<^verbatim>\<open>update_partition\<close>
  equal the stored out-degrees. The kernel applies the self count to row and column \<open>s\<close>
  only; for the input above the stored matrix is \<open>[[0, 0], [2, 2]]\<close> (the moved partition has
  \<open>[[1, 0], [1, 2]]\<close>), its row sums are 0 and 4, and the stored out-degrees are 1 and 3.
\<close>

theorem update_partition_self_loop:
  "vertex_reassign_edge_count_updates [[2, 0], [1, 1]] 0 1 [0] [1] [0] [1] 1 =
     Inr \<lparr>block_row = [0, 1], proposal_row = [1, 2], block_col = [0, 2],
          proposal_col = [0, 2]\<rparr> \<and>
   compute_new_block_degrees 0 1
     \<lparr>num_blocks = 2, block_assignment = [0, 0, 1], interblock_edge_count = [[2, 0], [1, 1]],
      block_degrees_out = [2, 2], block_degrees_in = [3, 1], block_degrees = [5, 3],
      num_blocks_to_merge = 0\<rparr> 1 1 2 = Inr ([1, 3], [2, 2], [3, 5]) \<and>
   update_partition
     \<lparr>num_blocks = 2, block_assignment = [0, 0, 1], interblock_edge_count = [[2, 0], [1, 1]],
      block_degrees_out = [2, 2], block_degrees_in = [3, 1], block_degrees = [5, 3],
      num_blocks_to_merge = 0\<rparr> 0 0 1
     \<lparr>block_row = [0, 1], proposal_row = [1, 2], block_col = [0, 2], proposal_col = [0, 2]\<rparr>
     [1, 3] [2, 2] [3, 5] =
   Inr \<lparr>num_blocks = 2, block_assignment = [1, 0, 1], interblock_edge_count = [[0, 0], [2, 2]],
        block_degrees_out = [1, 3], block_degrees_in = [2, 2], block_degrees = [3, 5],
        num_blocks_to_merge = 0\<rparr> \<and>
   sum_list ([[0, 0], [2, 2]] ! 0) \<noteq> [1, 3 :: int] ! 0 \<and>
   sum_list ([[0, 0], [2, 2]] ! 1) \<noteq> [1, 3 :: int] ! 1"
  using ex2_kernel ex2_degrees ex2_update by simp

text \<open>
  C3. For the same move \<^verbatim>\<open>compute_delta_entropy\<close> returns 0, while the overall entropy
  of the partition stored by \<^verbatim>\<open>update_partition\<close> differs from that of the current one by
  \<open>ln 3 - 2 ln 2\<close>: the two are not within the relative error \<open>10\<^sup>-\<^sup>6\<close>.
\<close>

theorem delta_entropy_self_loop:
  "vertex_reassign_edge_count_updates [[2, 0], [1, 1]] 0 1 [0] [1] [0] [1] 1 =
     Inr \<lparr>block_row = [0, 1], proposal_row = [1, 2], block_col = [0, 2],
          proposal_col = [0, 2]\<rparr> \<and>
   update_partition
     \<lparr>num_blocks = 2, block_assignment = [0, 0, 1], interblock_edge_count = [[2, 0], [1, 1]],
      block_degrees_out = [2, 2], block_degrees_in = [3, 1], block_degrees = [5, 3],
      num_blocks_to_merge = 0\<rparr> 0 0 1
     \<lparr>block_row = [0, 1], proposal_row = [1, 2], block_col = [0, 2], proposal_col = [0, 2]\<rparr>
     [1, 3] [2, 2] [3, 5] =
   Inr \<lparr>num_blocks = 2, block_assignment = [1, 0, 1], interblock_edge_count = [[0, 0], [2, 2]],
        block_degrees_out = [1, 3], block_degrees_in = [2, 2], block_degrees = [3, 5],
        num_blocks_to_merge = 0\<rparr> \<and>
   compute_delta_entropy 0 1
     \<lparr>num_blocks = 2, block_assignment = [0, 0, 1], interblock_edge_count = [[2, 0], [1, 1]],
      block_degrees_out = [2, 2], block_degrees_in = [3, 1], block_degrees = [5, 3],
      num_blocks_to_merge = 0\<rparr>
     \<lparr>block_row = [0, 1], proposal_row = [1, 2], block_col = [0, 2], proposal_col = [0, 2]\<rparr>
     [1, 3] [2, 2] = Inr (Fin 0) \<and>
   compute_overall_entropy
     \<lparr>num_blocks = 2, block_assignment = [1, 0, 1], interblock_edge_count = [[0, 0], [2, 2]],
      block_degrees_out = [1, 3], block_degrees_in = [2, 2], block_degrees = [3, 5],
      num_blocks_to_merge = 0\<rparr> 3 4 = Inr (Fin (11 * ln 2 + 4 * ln 3)) \<and>
   compute_overall_entropy
     \<lparr>num_blocks = 2, block_assignment = [0, 0, 1], interblock_edge_count = [[2, 0], [1, 1]],
      block_degrees_out = [2, 2], block_degrees_in = [3, 1], block_degrees = [5, 3],
      num_blocks_to_merge = 0\<rparr> 3 4 = Inr (Fin (13 * ln 2 + 3 * ln 3)) \<and>
   \<not> \<bar>0 - ((11 * ln 2 + 4 * ln 3) - (13 * ln 2 + 3 * ln 3))\<bar>
       \<le> 1 / 10 ^ 6 * \<bar>(11 * ln 2 + 4 * ln 3) - (13 * ln 2 + 3 * ln (3::real))\<bar>"
  using ex2_kernel ex2_update ex3_delta ex3_new ex3_old ln3_less by simp

lemma foldl_np_add_Fin:
  "foldl np_add (Fin a) (map (\<lambda>x. Fin (g x)) xs) = Fin (a + sum_list (map g xs))"
  by (induction xs arbitrary: a) (simp_all add: add.assoc)

lemma np_sum_Fin: "np_sum (map (\<lambda>x. Fin (g x)) xs) = Fin (sum_list (map g xs))"
  by (simp add: np_sum_def foldl_np_add_Fin)


lemma distinct_np_unique [simp]: "distinct (np_unique xs)"
  by (simp add: np_unique_def)





section \<open>The Hastings correction\<close>



lemma is_finite_np_add [simp]: "is_finite (np_add a b) \<longleftrightarrow> is_finite a \<and> is_finite b"
  by (cases a; cases b) simp_all

lemma is_finite_np_neg [simp]: "is_finite (np_neg a) \<longleftrightarrow> is_finite a"
  by (cases a) simp_all

lemma is_finite_np_sub [simp]: "is_finite (np_sub a b) \<longleftrightarrow> is_finite a \<and> is_finite b"
  by (simp add: np_sub_def)







section \<open>Divisions by a degree\<close>




lemma golden_ratio_step_merge:
  "num_blocks_to_merge (golden_ratio_step high low) =
     num_blocks high
     - (num_blocks low + np_round (of_int (num_blocks high - num_blocks low) * 0.618))"
  by (simp add: golden_ratio_step_def Let_def)

section \<open>The decision on the next number of blocks\<close>






lemma length_replace_all [simp]: "length (replace_all x y a) = length a"
  by (simp add: replace_all_def)

lemma apply_commits_Nil [simp]: "apply_commits [] asg = asg"
  by (simp add: apply_commits_def)

lemma apply_commits_Cons [simp]:
  "apply_commits ((a, t) # cs) asg = apply_commits cs (replace_all a t asg)"
  by (simp add: apply_commits_def)

lemma spec_commits_zero [simp]: "spec_commits xs best bm 0 = []"
  by (cases xs) simp_all










lemma argsort_order:
  "distinct (argsort ds) \<and> set (argsort ds) = {0..<length ds} \<and>
   sorted (map (\<lambda>i. np_sort_key (ds ! i)) (argsort ds))"
  by (simp add: argsort_def sorted_sort_key)

lemma fold_store_length [simp]:
  "length (fold (\<lambda>(i, v) acc. acc[g i := v]) ps acc) = length acc"
  by (induction ps arbitrary: acc) auto





section \<open>The merge pass\<close>



section \<open>What the overall entropy computes on a valid partition\<close>

text \<open>
  On a partition whose nonzero entries and their degrees are positive, with \<open>E > 0\<close> and at
  least one block, \<^verbatim>\<open>compute_overall_entropy\<close> returns the documented objective plus
  \<open>(E - 1) x ln x\<close>, where \<open>x = B\<^sup>2 / E\<close>.
\<close>

lemma entropy_entry_Fin:
  fixes x a b :: real
  assumes "0 < x" "0 < a" "0 < b"
  shows "np_mul (Fin x) (np_log (np_div (Fin x) (Fin (a * b)))) = Fin (x * ln (x / (a * b)))"
  using assms by simp

lemma model_term_split:
  fixes e y l1 l :: real
  shows "e * (1 + y) * l1 - y * l = e * ((1 + y) * l1 - y * l) + (e - 1) * y * l"
  by (simp add: algebra_simps)

lemma compute_overall_entropy_value:
  assumes sq: "is_square (interblock_edge_count part)"
    and lens: "length (block_degrees_out part) = length (interblock_edge_count part)"
      "length (block_degrees_in part) = length (interblock_edge_count part)"
    and E: "0 < E" and B: "1 \<le> num_blocks part"
    and pos: "\<forall>(i, j)\<in>set (nonzero2d (interblock_edge_count part)).
        0 < interblock_edge_count part ! i ! j \<and> 0 < block_degrees_out part ! i \<and>
        0 < block_degrees_in part ! j"
  shows "compute_overall_entropy part N E =
     Inr (Fin (spec_overall_entropy part N E
               + (of_int E - 1) * (of_int ((num_blocks part)\<^sup>2) / of_int E)
                 * ln (of_int ((num_blocks part)\<^sup>2) / of_int E)))"
proof -
  let ?M = "interblock_edge_count part"
  let ?x = "real_of_int ((num_blocks part)\<^sup>2) / real_of_int E"
  have x: "0 < ?x" using E B by simp
  let ?F = "\<lambda>(i, j). np_mul (Fin (of_int (?M ! i ! j)))
                (np_log (np_div (Fin (of_int (?M ! i ! j)))
                   (Fin (of_int (block_degrees_out part ! i * block_degrees_in part ! j)))))"
  let ?G = "\<lambda>(i, j). real_of_int (?M ! i ! j)
                * ln (of_int (?M ! i ! j)
                      / (of_int (block_degrees_out part ! i) * of_int (block_degrees_in part ! j)))"
  have eq: "map ?F (nonzero2d ?M) = map (\<lambda>p. Fin (?G p)) (nonzero2d ?M)"
    using pos by (intro map_cong) (auto simp del: np_mul.simps np_log.simps np_div.simps
        simp: entropy_entry_Fin)
  have data: "np_sum (map ?F (nonzero2d ?M)) =
        Fin (data_sum ?M (block_degrees_out part) (block_degrees_in part))"
    unfolding eq np_sum_Fin data_sum_def ..
  have B': "0 < real_of_int (num_blocks part)" using B by simp
  have x1: "0 < 1 + ?x" using x by simp
  have code: "compute_overall_entropy part N E =
     Inr (Fin (of_int E * (1 + ?x) * ln (1 + ?x) - ?x * ln ?x
               + of_int N * ln (of_int (num_blocks part))
               - data_sum ?M (block_degrees_out part) (block_degrees_in part)))"
    unfolding compute_overall_entropy_def Let_def data
    using sq lens E x x1 B' by (simp add: np_sub_def)
  have "of_int E * (1 + ?x) * ln (1 + ?x) - ?x * ln ?x =
        of_int E * model_h ?x + (of_int E - 1) * ?x * ln ?x"
    unfolding model_h_def by (rule model_term_split)
  then show ?thesis
    unfolding code spec_overall_entropy_def by simp
qed

end
